theory Spec2Isabelle
  imports Complex_Main "HOL-Library.Sublist"
begin

section \<open>Remora tail-risk tracker: the callbacks of app.py\<close>

text \<open>
  A shallow embedding of the three Dash callbacks of \<^verbatim>\<open>app.py\<close>:
  \<^verbatim>\<open>sync_preset_to_slider\<close>, \<^verbatim>\<open>update_interval\<close> and
  \<^verbatim>\<open>update_live_price\<close>.

  Numbers. The program computes in IEEE double precision. Finite doubles are modelled as
  real numbers and every arithmetic operation as the exact real operation, so rounding,
  overflow and signed zeros are not represented. NaN is represented, because the program
  produces it from short samples (\<^verbatim>\<open>mean\<close> of no value, \<^verbatim>\<open>std\<close> of fewer
  than two values) and propagates it through the simulation. Infinities are not
  represented: they arise only from a closing price that is zero, and the closing prices
  of the feed are taken to be positive. Theorems that depend on it say so.

  Effects. The market-data query is the only input from outside: its outcome (an exception,
  or the column of closing prices) is an argument of the model. The global random generator
  of numpy is a state, passed in and returned: the sequence of standard normal draws it
  will deliver next.
\<close>

subsection \<open>Configuration\<close>

record instrument =
  long_ko :: real
  short_ko :: real
  gearing :: real

text \<open>\<^verbatim>\<open>warrants_data\<close>: one entry.\<close>

definition warrants_data :: "string \<rightharpoonup> instrument" where
  "warrants_data =
     [''WES Tail Hedge (KOQ)'' \<mapsto> \<lparr>long_ko = 60, short_ko = 97.14, gearing = 73\<rparr>]"

text \<open>\<^verbatim>\<open>interval_presets\<close>, in the order of the dictionary literal.\<close>

definition interval_presets :: "(string \<times> int) list" where
  "interval_presets =
     [(''Turbo Mode (10s)'', 10), (''Coffee Break (120s)'', 120),
      (''Cruise (60s)'', 60), (''Nap Time (300s)'', 300)]"

text \<open>The \<^verbatim>\<open>dcc.Slider\<close> of the layout: \<^verbatim>\<open>min=10, max=300, step=10, value=60\<close>.\<close>

record slider =
  slider_min :: int
  slider_max :: int
  slider_step :: int
  slider_value :: int

definition interval_slider :: slider where
  "interval_slider = \<lparr>slider_min = 10, slider_max = 300, slider_step = 10, slider_value = 60\<rparr>"

subsection \<open>The interval callbacks\<close>

definition sync_preset_to_slider :: "int \<Rightarrow> int" where
  "sync_preset_to_slider preset_value = preset_value"

definition update_interval :: "int \<Rightarrow> int" where
  "update_interval seconds = seconds * 1000"

subsection \<open>numpy values\<close>

datatype npfloat = NaN | Fin real

fun np_add :: "npfloat \<Rightarrow> npfloat \<Rightarrow> npfloat" where
  "np_add (Fin x) (Fin y) = Fin (x + y)"
| "np_add _ _ = NaN"

fun np_sub :: "npfloat \<Rightarrow> npfloat \<Rightarrow> npfloat" where
  "np_sub (Fin x) (Fin y) = Fin (x - y)"
| "np_sub _ _ = NaN"

fun np_mul :: "npfloat \<Rightarrow> npfloat \<Rightarrow> npfloat" where
  "np_mul (Fin x) (Fin y) = Fin (x * y)"
| "np_mul _ _ = NaN"

text \<open>Division: \<^verbatim>\<open>0/0\<close> is NaN. A nonzero value over zero is an infinity in numpy, which
  the model does not have: the divisors of the program are closing prices.\<close>

fun np_div :: "npfloat \<Rightarrow> npfloat \<Rightarrow> npfloat" where
  "np_div (Fin x) (Fin y) = (if x = 0 \<and> y = 0 then NaN else Fin (x / y))"
| "np_div _ _ = NaN"

fun np_square :: "npfloat \<Rightarrow> npfloat" where
  "np_square (Fin x) = Fin (x ^ 2)"
| "np_square NaN = NaN"

text \<open>\<^verbatim>\<open>np.log\<close>: NaN below zero (at zero numpy gives an infinity, see above).\<close>

fun np_log :: "npfloat \<Rightarrow> npfloat" where
  "np_log (Fin x) = (if x < 0 then NaN else Fin (ln x))"
| "np_log NaN = NaN"

fun np_sqrt :: "npfloat \<Rightarrow> npfloat" where
  "np_sqrt (Fin x) = (if x < 0 then NaN else Fin (sqrt x))"
| "np_sqrt NaN = NaN"

fun np_exp :: "npfloat \<Rightarrow> npfloat" where
  "np_exp (Fin x) = Fin (exp x)"
| "np_exp NaN = NaN"

subsection \<open>pandas series\<close>

text \<open>\<^verbatim>\<open>Series.shift(1)\<close>: same length, NaN first.\<close>

definition shift1 :: "real list \<Rightarrow> npfloat list" where
  "shift1 xs = take (length xs) (NaN # map Fin xs)"

fun dropna :: "npfloat list \<Rightarrow> real list" where
  "dropna [] = []"
| "dropna (NaN # xs) = dropna xs"
| "dropna (Fin x # xs) = x # dropna xs"

text \<open>\<^verbatim>\<open>Series.mean()\<close>: NaN on an empty series.\<close>

definition mean :: "real list \<Rightarrow> npfloat" where
  "mean xs = (if xs = [] then NaN else Fin (sum_list xs / real (length xs)))"

text \<open>\<^verbatim>\<open>Series.std()\<close>: the sample standard deviation (pandas' default \<^verbatim>\<open>ddof=1\<close>),
  NaN on fewer than two values.\<close>

definition std :: "real list \<Rightarrow> npfloat" where
  "std xs =
     (if length xs < 2 then NaN
      else Fin (sqrt (sum_list (map (\<lambda>x. (x - sum_list xs / real (length xs)) ^ 2) xs)
                      / real (length xs - 1))))"

text \<open>Line 118: \<^verbatim>\<open>np.log(hist['Close'] / hist['Close'].shift(1)).dropna()\<close>.\<close>

definition log_returns :: "real list \<Rightarrow> real list" where
  "log_returns close = dropna (map np_log (map2 np_div (map Fin close) (shift1 close)))"

subsection \<open>The random generator\<close>

text \<open>The state of \<^verbatim>\<open>np.random\<close>: the draws to come. \<^verbatim>\<open>np.random.normal(0, 1, k)\<close>
  returns the next \<open>k\<close> of them and advances the state.\<close>

type_synonym rng = "nat \<Rightarrow> real"

definition normal :: "nat \<Rightarrow> rng \<Rightarrow> real list \<times> rng" where
  "normal k g = (map g [0..<k], (\<lambda>i. g (i + k)))"

subsection \<open>Buffers, colours and the risk tag (lines 85 to 90)\<close>

definition long_buffer :: "real \<Rightarrow> real \<Rightarrow> real" where
  "long_buffer current_price lko = ((current_price - lko) / lko) * 100"

definition short_buffer :: "real \<Rightarrow> real \<Rightarrow> real" where
  "short_buffer current_price sko = ((sko - current_price) / sko) * 100"

definition long_color :: "real \<Rightarrow> string" where
  "long_color lb = (if lb \<ge> 5 then ''green'' else ''orange'')"

definition short_color :: "real \<Rightarrow> string" where
  "short_color sb = (if sb \<ge> 5 then ''red'' else ''darkred'')"

text \<open>The three literals start with a pictograph, given here by its UTF-8 bytes
  (U+1F9E8; U+26A0 U+FE0F; U+2705).\<close>

definition risk_tag :: "real \<Rightarrow> string" where
  "risk_tag gr =
     (if gr > 50 then [CHR 0xF0, CHR 0x9F, CHR 0xA7, CHR 0xA8] @ '' HIGH RISK''
      else if gr > 30 then [CHR 0xE2, CHR 0x9A, CHR 0xA0, CHR 0xEF, CHR 0xB8, CHR 0x8F] @ '' MODERATE''
      else [CHR 0xE2, CHR 0x9C, CHR 0x85] @ '' Stable'')"

text \<open>The format \<^verbatim>\<open>.2f\<close> of the text panel: the nearest multiple of 1/100, a tie going
  to the even one.\<close>

definition round_half_even :: "real \<Rightarrow> int" where
  "round_half_even x =
     (if x - of_int \<lfloor>x\<rfloor> < 1 / 2 then \<lfloor>x\<rfloor>
      else if 1 / 2 < x - of_int \<lfloor>x\<rfloor> then \<lfloor>x\<rfloor> + 1
      else if even \<lfloor>x\<rfloor> then \<lfloor>x\<rfloor> else \<lfloor>x\<rfloor> + 1)"

definition format_2f :: "real \<Rightarrow> real" where
  "format_2f x = of_int (round_half_even (x * 100)) / 100"

subsection \<open>The Monte Carlo simulation (lines 118 to 128)\<close>

definition paths :: nat where "paths = 10"
definition steps :: nat where "steps = 30"
definition dt :: real where "dt = 1"

text \<open>The factor of line 128 for one draw \<open>z\<close>:
  \<^verbatim>\<open>np.exp((mu - 0.5 * sigma**2)*dt + sigma * np.sqrt(dt) * rand)\<close>.\<close>

definition growth :: "npfloat \<Rightarrow> npfloat \<Rightarrow> real \<Rightarrow> npfloat" where
  "growth mu sigma z =
     np_exp (np_add (np_mul (np_sub mu (np_mul (Fin 0.5) (np_square sigma))) (Fin dt))
                    (np_mul (np_mul sigma (np_sqrt (Fin dt))) (Fin z)))"

text \<open>The right-hand side of line 128: the previous row times the factors, elementwise.\<close>

definition advance :: "npfloat \<Rightarrow> npfloat \<Rightarrow> npfloat list \<Rightarrow> real list \<Rightarrow> npfloat list" where
  "advance mu sigma prev rand = map2 (\<lambda>s z. np_mul s (growth mu sigma z)) prev rand"

text \<open>The loop \<^verbatim>\<open>for i in range(1, steps)\<close> over the indices still to do, on the grid
  and the generator. Every index is within the grid, so the assignment never fails.\<close>

fun for_steps ::
  "npfloat \<Rightarrow> npfloat \<Rightarrow> nat list \<Rightarrow> npfloat list list \<Rightarrow> rng \<Rightarrow> npfloat list list \<times> rng" where
  "for_steps mu sigma [] sim_paths g = (sim_paths, g)"
| "for_steps mu sigma (i # rest) sim_paths g =
     (case normal paths g of
        (rand, g') \<Rightarrow>
          for_steps mu sigma rest (sim_paths[i := advance mu sigma (sim_paths ! (i - 1)) rand]) g')"

definition monte_carlo :: "real list \<Rightarrow> real \<Rightarrow> rng \<Rightarrow> npfloat list list \<times> rng" where
  "monte_carlo close current_price g =
     for_steps (mean (log_returns close)) (std (log_returns close)) [1..<steps]
       ((replicate steps (replicate paths (Fin 0)))[0 := replicate paths (Fin current_price)]) g"

subsection \<open>The outputs\<close>

text \<open>The text panel: a paragraph, or the block of four lines, kept as the values its
  lines show.\<close>

record summary =
  shown_price :: real
  shown_long_ko :: real
  shown_long_buffer :: real
  shown_short_ko :: real
  shown_short_buffer :: real
  shown_gearing :: real
  shown_risk_tag :: string

datatype panel = P string | Div summary

record indicator =
  ind_value :: real
  ind_title :: string
  ind_bar_color :: string

text \<open>A figure: \<^verbatim>\<open>go.Figure()\<close> with nothing in it, the two gauges, or the simulation
  chart (one trace per path, the two barrier lines). The constants of the layout (axis
  ranges, domains, margins, trace names, annotations) are left out.\<close>

datatype figure = Figure | Gauges indicator indicator | Simulation "npfloat list list" real real

text \<open>The trace of path \<open>j\<close> is the column \<^verbatim>\<open>sim_paths[:, j]\<close>.\<close>

definition traces :: "npfloat list list \<Rightarrow> npfloat list list" where
  "traces sim_paths = map (\<lambda>j. map (\<lambda>row. row ! j) sim_paths) [0..<paths]"

subsection \<open>The recompute callback\<close>

text \<open>What the query \<^verbatim>\<open>yf.Ticker("WES.AX").history(...)\<close> does: raise (with the text of
  the exception), or return a frame with this column of closing prices.\<close>

datatype feed = Raises string | History "real list"

datatype exn = FeedError string | KeyError string

text \<open>\<^verbatim>\<open>str(e)\<close>. For a missing key it is the \<^verbatim>\<open>repr\<close> of the key: the key between
  single quotes, for a key with no quote or escape in it.\<close>

fun str :: "exn \<Rightarrow> string" where
  "str (FeedError m) = m"
| "str (KeyError k) = [CHR 0x27] @ k @ [CHR 0x27]"

type_synonym outputs = "panel \<times> figure \<times> figure"

text \<open>The body of the \<^verbatim>\<open>try\<close>: \<open>Inl\<close> is an exception raised in it. \<open>label\<close> is the
  value of the ticker dropdown. The arithmetic of numpy raises nothing, so the query and the
  lookup of the label are the two places where the body can fail.\<close>

definition try_body :: "feed \<Rightarrow> string \<Rightarrow> rng \<Rightarrow> exn + (outputs \<times> rng)" where
  "try_body fd label g =
     (case fd of
        Raises m \<Rightarrow> Inl (FeedError m)
      | History close \<Rightarrow>
          if close = [] then Inr ((P ''No data available...'', Figure, Figure), g)
          else
            (case warrants_data label of
               None \<Rightarrow> Inl (KeyError label)
             | Some w \<Rightarrow>
                 (case monte_carlo close (last close) g of
                    (sim_paths, g') \<Rightarrow>
                      Inr ((Div \<lparr>shown_price = last close,
                                 shown_long_ko = long_ko w,
                                 shown_long_buffer = long_buffer (last close) (long_ko w),
                                 shown_short_ko = short_ko w,
                                 shown_short_buffer = short_buffer (last close) (short_ko w),
                                 shown_gearing = gearing w,
                                 shown_risk_tag = risk_tag (gearing w)\<rparr>,
                            Gauges
                              \<lparr>ind_value = long_buffer (last close) (long_ko w),
                               ind_title = ''LONG KO Buffer %'',
                               ind_bar_color = long_color (long_buffer (last close) (long_ko w))\<rparr>
                              \<lparr>ind_value = short_buffer (last close) (short_ko w),
                               ind_title = ''SHORT KO Buffer %'',
                               ind_bar_color = short_color (short_buffer (last close) (short_ko w))\<rparr>,
                            Simulation (traces sim_paths) (long_ko w) (short_ko w)), g'))))"

text \<open>The callback: the body, and the handler \<^verbatim>\<open>except Exception as e\<close>. The argument
  \<open>n\<close> (the tick count) is not used.\<close>

definition update_live_price :: "feed \<Rightarrow> int \<Rightarrow> string \<Rightarrow> rng \<Rightarrow> outputs \<times> rng" where
  "update_live_price fd n label g =
     (case try_body fd label g of
        Inl e \<Rightarrow> ((P (''Error loading data: '' @ str e), Figure, Figure), g)
      | Inr r \<Rightarrow> r)"

section \<open>Facts about the model\<close>

subsection \<open>The loop\<close>

lemma for_steps_length: "length (fst (for_steps mu sigma is sim g)) = length sim"
  by (induction "is" arbitrary: sim g) (simp_all add: normal_def)

lemma for_steps_rng: "snd (for_steps mu sigma is sim g) = (\<lambda>k. g (k + length is * paths))"
  by (induction "is" arbitrary: sim g) (simp_all add: normal_def ac_simps)

lemma for_steps_other:
  "i \<notin> set is \<Longrightarrow> fst (for_steps mu sigma is sim g) ! i = sim ! i"
  by (induction "is" arbitrary: sim g) (auto simp: normal_def)

lemma for_steps_upt_row:
  "1 \<le> a \<Longrightarrow> b \<le> length sim \<Longrightarrow> a \<le> i \<Longrightarrow> i < b \<Longrightarrow>
   fst (for_steps mu sigma [a..<b] sim g) ! i =
     advance mu sigma (fst (for_steps mu sigma [a..<b] sim g) ! (i - 1))
       (map (\<lambda>j. g ((i - a) * paths + j)) [0..<paths])"
proof (induction "b - a" arbitrary: a sim g)
  case 0
  then show ?case by simp
next
  case (Suc d)
  let ?rand = "map g [0..<paths]"
  let ?sim = "sim[a := advance mu sigma (sim ! (a - 1)) ?rand]"
  let ?g = "\<lambda>k. g (k + paths)"
  have ab: "a < b" using Suc.prems by simp
  have unfold: "for_steps mu sigma [a..<b] sim g = for_steps mu sigma [Suc a..<b] ?sim ?g"
    using ab by (simp add: upt_conv_Cons normal_def)
  show ?case
  proof (cases "i = a")
    case True
    have "fst (for_steps mu sigma [Suc a..<b] ?sim ?g) ! a = ?sim ! a"
      by (rule for_steps_other) simp
    moreover have "a - 1 \<notin> set [Suc a..<b]" by auto
    then have "fst (for_steps mu sigma [Suc a..<b] ?sim ?g) ! (a - 1) = ?sim ! (a - 1)"
      by (rule for_steps_other)
    moreover have "?sim ! a = advance mu sigma (sim ! (a - 1)) ?rand"
      using ab Suc.prems by simp
    moreover have "?sim ! (a - 1) = sim ! (a - 1)"
      using Suc.prems by simp
    ultimately show ?thesis
      using True unfold by simp
  next
    case False
    then have lo: "Suc a \<le> i" using Suc.prems by simp
    have d: "d = b - Suc a" using Suc.hyps by simp
    have len: "b \<le> length ?sim" using Suc.prems by simp
    have "fst (for_steps mu sigma [Suc a..<b] ?sim ?g) ! i =
      advance mu sigma (fst (for_steps mu sigma [Suc a..<b] ?sim ?g) ! (i - 1))
        (map (\<lambda>j. ?g ((i - Suc a) * paths + j)) [0..<paths])"
      using Suc.hyps(1)[OF d _ len lo] Suc.prems by simp
    moreover have "(\<lambda>j. ?g ((i - Suc a) * paths + j)) = (\<lambda>j. g ((i - a) * paths + j))"
    proof
      fix j
      have "i - a = Suc (i - Suc a)" using lo by simp
      then show "?g ((i - Suc a) * paths + j) = g ((i - a) * paths + j)"
        by (simp add: ac_simps)
    qed
    ultimately show ?thesis using unfold by simp
  qed
qed

lemma for_steps_draws:
  "\<forall>k < length is * paths. g1 k = g2 k \<Longrightarrow>
   fst (for_steps mu sigma is sim g1) = fst (for_steps mu sigma is sim g2)"
proof (induction "is" arbitrary: sim g1 g2)
  case Nil
  then show ?case by simp
next
  case (Cons i rest)
  have same: "map g1 [0..<paths] = map g2 [0..<paths]"
    using Cons.prems by simp
  have "\<forall>k < length rest * paths. g1 (k + paths) = g2 (k + paths)"
    using Cons.prems by simp
  then have "fst (for_steps mu sigma rest
                  (sim[i := advance mu sigma (sim ! (i - 1)) (map g2 [0..<paths])])
                  (\<lambda>k. g1 (k + paths))) =
             fst (for_steps mu sigma rest
                  (sim[i := advance mu sigma (sim ! (i - 1)) (map g2 [0..<paths])])
                  (\<lambda>k. g2 (k + paths)))"
    by (rule Cons.IH)
  then show ?case
    unfolding for_steps.simps normal_def prod.case same .
qed


lemma warrants_data_Some:
  "warrants_data label = Some w \<Longrightarrow>
   label = ''WES Tail Hedge (KOQ)'' \<and> long_ko w = 60 \<and> short_ko w = 97.14 \<and> gearing w = 73"
  by (auto simp: warrants_data_def split: if_splits)

lemma update_live_price_ok:
  assumes "close \<noteq> []" and "warrants_data label = Some w"
  shows "update_live_price (History close) n label g =
     ((Div \<lparr>shown_price = last close,
            shown_long_ko = long_ko w,
            shown_long_buffer = long_buffer (last close) (long_ko w),
            shown_short_ko = short_ko w,
            shown_short_buffer = short_buffer (last close) (short_ko w),
            shown_gearing = gearing w,
            shown_risk_tag = risk_tag (gearing w)\<rparr>,
       Gauges
         \<lparr>ind_value = long_buffer (last close) (long_ko w),
          ind_title = ''LONG KO Buffer %'',
          ind_bar_color = long_color (long_buffer (last close) (long_ko w))\<rparr>
         \<lparr>ind_value = short_buffer (last close) (short_ko w),
          ind_title = ''SHORT KO Buffer %'',
          ind_bar_color = short_color (short_buffer (last close) (short_ko w))\<rparr>,
       Simulation (traces (fst (monte_carlo close (last close) g))) (long_ko w) (short_ko w)),
      snd (monte_carlo close (last close) g))"
  using assms by (simp add: update_live_price_def try_body_def split: prod.splits)


lemma monte_carlo_length: "length (fst (monte_carlo close p g)) = steps"
  by (simp add: monte_carlo_def for_steps_length)

lemma monte_carlo_rng: "snd (monte_carlo close p g) = (\<lambda>k. g (k + 290))"
  by (simp add: monte_carlo_def for_steps_rng steps_def paths_def)

lemma monte_carlo_row0: "fst (monte_carlo close p g) ! 0 = replicate paths (Fin p)"
proof -
  have "0 \<notin> set [1..<steps]" by simp
  then show ?thesis
    unfolding monte_carlo_def by (simp add: for_steps_other steps_def)
qed

lemma monte_carlo_row:
  assumes "1 \<le> i" and "i < steps"
  shows "fst (monte_carlo close p g) ! i =
     advance (mean (log_returns close)) (std (log_returns close))
       (fst (monte_carlo close p g) ! (i - 1))
       (map (\<lambda>j. g ((i - 1) * paths + j)) [0..<paths])"
  unfolding monte_carlo_def
  by (rule for_steps_upt_row) (use assms in simp_all)

lemma advance_length: "length prev = paths \<Longrightarrow> length (advance mu sigma prev (map f [0..<paths])) = paths"
  by (simp add: advance_def)

lemma monte_carlo_row_length: "i < steps \<Longrightarrow> length (fst (monte_carlo close p g) ! i) = paths"
proof (induction i)
  case 0
  then show ?case by (simp add: monte_carlo_row0)
next
  case (Suc i)
  then have "length (fst (monte_carlo close p g) ! i) = paths" by simp
  then show ?case
    using monte_carlo_row[of "Suc i" close p g] Suc.prems by (simp add: advance_length)
qed

subsection \<open>NaN in the simulation\<close>

lemma growth_NaN: "mu = NaN \<or> sigma = NaN \<Longrightarrow> growth mu sigma z = NaN"
  by (cases mu; cases sigma) (auto simp: growth_def)

lemma advance_nth:
  "j < paths \<Longrightarrow> length prev = paths \<Longrightarrow>
   advance mu sigma prev (map f [0..<paths]) ! j = np_mul (prev ! j) (growth mu sigma (f j))"
  by (simp add: advance_def)

lemma np_mul_NaN: "np_mul v NaN = NaN"
  by (cases v) simp_all

lemma advance_NaN:
  assumes "mu = NaN \<or> sigma = NaN" and "length prev = paths"
  shows "advance mu sigma prev (map f [0..<paths]) = replicate paths NaN"
proof (rule nth_equalityI)
  show "length (advance mu sigma prev (map f [0..<paths])) = length (replicate paths NaN)"
    using assms(2) by (simp add: advance_length)
next
  fix j assume "j < length (advance mu sigma prev (map f [0..<paths]))"
  then have j: "j < paths" using assms(2) by (simp add: advance_length)
  show "advance mu sigma prev (map f [0..<paths]) ! j = replicate paths NaN ! j"
    using j assms by (simp add: advance_nth growth_NaN np_mul_NaN)
qed

lemma monte_carlo_row_NaN:
  assumes "mean (log_returns close) = NaN \<or> std (log_returns close) = NaN"
    and "1 \<le> i" and "i < steps"
  shows "fst (monte_carlo close p g) ! i = replicate paths NaN"
proof -
  have "length (fst (monte_carlo close p g) ! (i - 1)) = paths"
    using assms(3) by (simp add: monte_carlo_row_length)
  then show ?thesis
    unfolding monte_carlo_row[OF assms(2,3)] using assms(1) by (rule advance_NaN[rotated])
qed

lemma monte_carlo_grid_NaN:
  assumes "mean (log_returns close) = NaN \<or> std (log_returns close) = NaN"
  shows "fst (monte_carlo close p g) = replicate 10 (Fin p) # replicate 29 (replicate 10 NaN)"
proof (rule nth_equalityI)
  show "length (fst (monte_carlo close p g)) =
      length (replicate 10 (Fin p) # replicate 29 (replicate 10 NaN))"
    by (simp add: monte_carlo_length steps_def)
next
  fix i assume "i < length (fst (monte_carlo close p g))"
  then have i: "i < 30" by (simp add: monte_carlo_length steps_def)
  show "fst (monte_carlo close p g) ! i =
      (replicate 10 (Fin p) # replicate 29 (replicate 10 NaN)) ! i"
  proof (cases i)
    case 0
    then show ?thesis by (simp add: monte_carlo_row0 paths_def)
  next
    case (Suc k)
    then have "1 \<le> i" "i < steps" using i by (simp_all add: steps_def)
    from monte_carlo_row_NaN[OF assms this] show ?thesis
      using Suc i by (simp add: paths_def)
  qed
qed

lemma traces_NaN:
  "traces (replicate 10 (Fin p) # replicate 29 (replicate 10 NaN)) =
     replicate 10 (Fin p # replicate 29 NaN)"
proof -
  have "map (\<lambda>row. row ! j) (replicate 10 (Fin p) # replicate 29 (replicate 10 NaN)) =
      Fin p # replicate 29 NaN" if "j < 10" for j :: nat
    using that by simp
  then have "map (\<lambda>j. map (\<lambda>row. row ! j) (replicate 10 (Fin p) # replicate 29 (replicate 10 NaN)))
      [0..<10] = map (\<lambda>j. Fin p # replicate 29 NaN) [0..<10]"
    by (intro map_cong refl) simp
  then show ?thesis
    by (simp add: traces_def paths_def map_replicate_const)
qed

lemma log_returns_single: "log_returns [p] = []"
  by (simp add: log_returns_def shift1_def)

lemma wes: "warrants_data ''WES Tail Hedge (KOQ)'' =
      Some \<lparr>long_ko = 60, short_ko = 97.14, gearing = 73\<rparr>"
  by (simp add: warrants_data_def)

lemma single_point_output:
  "update_live_price (History [p]) n ''WES Tail Hedge (KOQ)'' g =
     ((Div \<lparr>shown_price = p, shown_long_ko = 60, shown_long_buffer = long_buffer p 60,
            shown_short_ko = 97.14, shown_short_buffer = short_buffer p 97.14,
            shown_gearing = 73, shown_risk_tag = risk_tag 73\<rparr>,
       Gauges
         \<lparr>ind_value = long_buffer p 60, ind_title = ''LONG KO Buffer %'',
          ind_bar_color = long_color (long_buffer p 60)\<rparr>
         \<lparr>ind_value = short_buffer p 97.14, ind_title = ''SHORT KO Buffer %'',
          ind_bar_color = short_color (short_buffer p 97.14)\<rparr>,
       Simulation (replicate 10 (Fin p # replicate 29 NaN)) 60 97.14),
      (\<lambda>k. g (k + 290)))"
proof -
  have "mean (log_returns [p]) = NaN \<or> std (log_returns [p]) = NaN"
    by (simp add: log_returns_single mean_def)
  then have "fst (monte_carlo [p] p g) = replicate 10 (Fin p) # replicate 29 (replicate 10 NaN)"
    by (rule monte_carlo_grid_NaN)
  then show ?thesis
    using update_live_price_ok[of "[p]" "''WES Tail Hedge (KOQ)''" _ n g, OF _ wes]
    by (simp add: traces_NaN monte_carlo_rng)
qed

subsection \<open>Log-returns of positive prices\<close>





subsection \<open>Finite drift and volatility\<close>

lemma growth_Fin:
  "growth (Fin m) (Fin s) z = Fin (exp ((m - 0.5 * s ^ 2) * dt + s * sqrt dt * z))"
  by (simp add: growth_def dt_def)

lemma monte_carlo_entry:
  assumes "1 \<le> i" and "i < steps" and "j < paths"
  shows "fst (monte_carlo close p g) ! i ! j =
     np_mul (fst (monte_carlo close p g) ! (i - 1) ! j)
       (growth (mean (log_returns close)) (std (log_returns close)) (g ((i - 1) * paths + j)))"
proof -
  have "length (fst (monte_carlo close p g) ! (i - 1)) = paths"
    using assms(2) by (simp add: monte_carlo_row_length)
  then show ?thesis
    unfolding monte_carlo_row[OF assms(1,2)] using assms(3) by (simp add: advance_nth)
qed

lemma monte_carlo_Fin:
  assumes "mean (log_returns close) = Fin m" and "std (log_returns close) = Fin s"
  shows "i < steps \<Longrightarrow> j < paths \<Longrightarrow> \<exists>x. fst (monte_carlo close p g) ! i ! j = Fin x"
proof (induction i)
  case 0
  then show ?case by (simp add: monte_carlo_row0)
next
  case (Suc i)
  then obtain x where "fst (monte_carlo close p g) ! i ! j = Fin x" by auto
  then show ?case
    using monte_carlo_entry[of "Suc i" j close p g] Suc.prems assms
    by (simp add: growth_Fin)
qed

lemma monte_carlo_gbm:
  assumes "mean (log_returns close) = Fin m" and "std (log_returns close) = Fin s"
    and "1 \<le> i" and "i < steps" and "j < paths"
  shows "\<exists>x. fst (monte_carlo close p g) ! (i - 1) ! j = Fin x
     \<and> fst (monte_carlo close p g) ! i ! j =
         Fin (x * exp ((m - 0.5 * s ^ 2) * dt + s * sqrt dt * g ((i - 1) * paths + j)))"
proof -
  have "i - 1 < steps" using assms(4) by simp
  from monte_carlo_Fin[OF assms(1,2) this assms(5)] obtain x where
    x: "fst (monte_carlo close p g) ! (i - 1) ! j = Fin x" by auto
  show ?thesis
    using monte_carlo_entry[OF assms(3,4,5), of close p g] x assms(1,2)
    by (simp add: growth_Fin)
qed



subsection \<open>The draws a tick uses\<close>

lemma monte_carlo_draws:
  assumes "\<forall>k < 290. g1 k = g2 k"
  shows "fst (monte_carlo close p g1) = fst (monte_carlo close p g2)"
  unfolding monte_carlo_def
  by (rule for_steps_draws) (use assms in \<open>simp add: steps_def paths_def\<close>)

lemma traces_nth:
  "j < paths \<Longrightarrow> i < length grid \<Longrightarrow> traces grid ! j ! i = grid ! i ! j"
  by (simp add: traces_def)

lemma std_122: "\<exists>s. std (log_returns [1, 2, 2]) = Fin s \<and> s \<noteq> 0"
proof -
  have "log_returns [1, 2, 2] = [ln 2, 0]"
    by (simp add: log_returns_def shift1_def less_le_not_le)
  then show ?thesis by (simp add: std_def)
qed

lemma mean_122: "mean (log_returns [1, 2, 2]) = Fin (ln 2 / 2)"
proof -
  have "log_returns [1, 2, 2] = [ln 2, 0]"
    by (simp add: log_returns_def shift1_def less_le_not_le)
  then show ?thesis by (simp add: mean_def)
qed

section \<open>Properties\<close>


subsection \<open>The timer period\<close>

text \<open>
  C9. An interval of \<open>n\<close> seconds sets the timer period to \<open>n * 1000\<close> milliseconds, whether
  it comes from the slider or from a preset through the slider (the value that
  \<^verbatim>\<open>sync_preset_to_slider\<close> gives the slider is the input of \<^verbatim>\<open>update_interval\<close>). The preset
  \<^verbatim>\<open>Coffee Break (120s)\<close> is mapped to 120 and gives 120000 ms; the slider at 45 gives
  45000 ms; the slider ranges from 10 to 300 in steps of 10.
\<close>

theorem interval_period:
  "update_interval n = n * 1000
   \<and> update_interval (sync_preset_to_slider n) = n * 1000
   \<and> map_of interval_presets ''Coffee Break (120s)'' = Some 120
   \<and> update_interval (sync_preset_to_slider 120) = 120000
   \<and> update_interval 45 = 45000
   \<and> slider_min interval_slider = 10 \<and> slider_max interval_slider = 300
   \<and> slider_step interval_slider = 10"
  by (simp add: update_interval_def sync_preset_to_slider_def interval_presets_def
      interval_slider_def)

subsection \<open>Buffers\<close>

text \<open>
  C1. For a non-empty series with last close \<open>P\<close> (in particular a positive one) and the
  barrier levels \<open>L = 60\<close> and \<open>S = 97.14\<close> of the instrument, the callback shows, in the
  text panel and on the gauges, the long buffer \<open>(P - L) / L * 100\<close> and the short buffer
  \<open>(S - P) / S * 100\<close>. At \<open>P = 100\<close> the panel's two-decimal format shows 66.67 and -2.94.
\<close>

theorem buffer_formulas:
  assumes "close \<noteq> []" and "warrants_data label = Some w"
  shows "\<exists>s i1 i2 sim g'.
     update_live_price (History close) n label g = ((Div s, Gauges i1 i2, sim), g')
     \<and> shown_price s = last close
     \<and> long_ko w = 60 \<and> short_ko w = 97.14
     \<and> shown_long_buffer s = (last close - long_ko w) / long_ko w * 100
     \<and> shown_short_buffer s = (short_ko w - last close) / short_ko w * 100
     \<and> ind_value i1 = (last close - long_ko w) / long_ko w * 100
     \<and> ind_value i2 = (short_ko w - last close) / short_ko w * 100
     \<and> (last close = 100 \<longrightarrow>
          format_2f (shown_long_buffer s) = 66.67 \<and> format_2f (shown_short_buffer s) = - 2.94)"
proof -
  have ko: "long_ko w = 60" "short_ko w = 97.14"
    using warrants_data_Some[OF assms(2)] by simp_all
  have r1: "format_2f (long_buffer 100 60) = 66.67"
    by (simp add: format_2f_def long_buffer_def round_half_even_def)
  have r2: "format_2f (short_buffer 100 97.14) = - 2.94"
    by (simp add: format_2f_def short_buffer_def round_half_even_def)
  have ex: "last close = 100 \<longrightarrow>
      format_2f (long_buffer (last close) (long_ko w)) = 66.67
      \<and> format_2f (short_buffer (last close) (short_ko w)) = - 2.94"
  proof
    assume "last close = 100"
    then show "format_2f (long_buffer (last close) (long_ko w)) = 66.67
      \<and> format_2f (short_buffer (last close) (short_ko w)) = - 2.94"
      unfolding ko using r1 r2 by (simp only: simp_thms)
  qed
  show ?thesis
    unfolding update_live_price_ok[OF assms]
    apply (intro exI conjI)
            apply (rule refl)
           apply (simp_all only: summary.simps indicator.simps ko long_buffer_def short_buffer_def)
    using ex unfolding ko long_buffer_def short_buffer_def .
qed

theorem buffer_formulas_witness:
  "[99, 100] \<noteq> ([] :: real list)
   \<and> warrants_data ''WES Tail Hedge (KOQ)'' = Some \<lparr>long_ko = 60, short_ko = 97.14, gearing = 73\<rparr>
   \<and> (\<exists>s i1 i2 sim g'.
     update_live_price (History [99, 100]) 0 ''WES Tail Hedge (KOQ)'' (\<lambda>k. 0) =
       ((Div s, Gauges i1 i2, sim), g')
     \<and> shown_price s = 100
     \<and> shown_long_buffer s = (100 - 60) / 60 * 100
     \<and> shown_short_buffer s = (97.14 - 100) / 97.14 * 100
     \<and> ind_value i1 = (100 - 60) / 60 * 100
     \<and> ind_value i2 = (97.14 - 100) / 97.14 * 100
     \<and> format_2f (shown_long_buffer s) = 66.67 \<and> format_2f (shown_short_buffer s) = - 2.94)"
proof -
  have h1: "[99, 100] \<noteq> ([] :: real list)" by simp
  have h2: "warrants_data ''WES Tail Hedge (KOQ)'' =
      Some \<lparr>long_ko = 60, short_ko = 97.14, gearing = 73\<rparr>"
    by (simp add: warrants_data_def)
  from buffer_formulas[OF h1 h2, of 0 "\<lambda>k. 0"] obtain s i1 i2 sim g' where
    "update_live_price (History [99, 100]) 0 ''WES Tail Hedge (KOQ)'' (\<lambda>k. 0) =
       ((Div s, Gauges i1 i2, sim), g')"
    "shown_price s = 100"
    "shown_long_buffer s = (100 - 60) / 60 * 100"
    "shown_short_buffer s = (97.14 - 100) / 97.14 * 100"
    "ind_value i1 = (100 - 60) / 60 * 100"
    "ind_value i2 = (97.14 - 100) / 97.14 * 100"
    "format_2f (shown_long_buffer s) = 66.67" "format_2f (shown_short_buffer s) = - 2.94"
    by auto
  with h1 h2 show ?thesis by blast
qed



subsection \<open>The risk tag\<close>

text \<open>
  C5. The risk tag is a step function of the gearing alone: it reads HIGH RISK (after its
  pictograph) exactly when the gearing is above 50, MODERATE exactly when it is above 30
  and at most 50, and Stable exactly when it is at most 30. Gearing 73 gives HIGH RISK,
  40 gives MODERATE, 20 gives Stable.
\<close>

theorem risk_tag_step:
  "risk_tag gr =
     (if gr > 50 then [CHR 0xF0, CHR 0x9F, CHR 0xA7, CHR 0xA8] @ '' HIGH RISK''
      else if 30 < gr \<and> gr \<le> 50
        then [CHR 0xE2, CHR 0x9A, CHR 0xA0, CHR 0xEF, CHR 0xB8, CHR 0x8F] @ '' MODERATE''
      else [CHR 0xE2, CHR 0x9C, CHR 0x85] @ '' Stable'')
   \<and> suffix ''HIGH RISK'' (risk_tag gr) = (gr > 50)
   \<and> suffix ''MODERATE'' (risk_tag gr) = (30 < gr \<and> gr \<le> 50)
   \<and> suffix ''Stable'' (risk_tag gr) = (gr \<le> 30)
   \<and> suffix ''HIGH RISK'' (risk_tag 73)
   \<and> suffix ''MODERATE'' (risk_tag 40)
   \<and> suffix ''Stable'' (risk_tag 20)"
  by (simp add: risk_tag_def suffix_to_prefix)

subsection \<open>The simulation grid\<close>

text \<open>
  C2. For a non-empty series (and the instrument of the configuration) the simulation
  chart is drawn from a grid of exactly 30 rows of 10 columns each, whose row 0 holds the
  current price, the last close, in every column: each of the 10 traces has 30 points and
  starts at the current price.
\<close>

theorem simulation_grid_shape:
  assumes "close \<noteq> []" and "warrants_data label = Some w"
  shows "\<exists>pn fg grid g'.
     update_live_price (History close) n label g =
       ((pn, fg, Simulation (traces grid) (long_ko w) (short_ko w)), g')
     \<and> monte_carlo close (last close) g = (grid, g')
     \<and> length grid = 30
     \<and> (\<forall>row \<in> set grid. length row = 10)
     \<and> grid ! 0 = replicate 10 (Fin (last close))
     \<and> length (traces grid) = 10
     \<and> (\<forall>tr \<in> set (traces grid). length tr = 30 \<and> tr ! 0 = Fin (last close))"
proof -
  let ?grid = "fst (monte_carlo close (last close) g)"
  have len: "length ?grid = 30"
    by (simp add: monte_carlo_length steps_def)
  have rows: "\<forall>row \<in> set ?grid. length row = 10"
    using len monte_carlo_row_length[of _ close "last close" g]
    by (auto simp: in_set_conv_nth steps_def paths_def)
  have row0: "?grid ! 0 = replicate 10 (Fin (last close))"
    by (simp add: monte_carlo_row0 paths_def)
  have tl: "length (traces ?grid) = 10"
    by (simp add: traces_def paths_def)
  have "?grid \<noteq> []" using len by auto
  then have hd0: "\<And>j. j < 10 \<Longrightarrow> map (\<lambda>row. row ! j) ?grid ! 0 = Fin (last close)"
    using row0 len by simp
  have trs: "\<forall>tr \<in> set (traces ?grid). length tr = 30 \<and> tr ! 0 = Fin (last close)"
    using len hd0 by (auto simp: traces_def paths_def)
  show ?thesis
    using update_live_price_ok[OF assms, of n g] len rows row0 tl trs
    by (intro exI[of _ "fst (fst (update_live_price (History close) n label g))"] exI conjI)
       (simp_all add: prod_eq_iff)
qed

theorem simulation_grid_shape_witness:
  "[100] \<noteq> ([] :: real list)
   \<and> warrants_data ''WES Tail Hedge (KOQ)'' = Some \<lparr>long_ko = 60, short_ko = 97.14, gearing = 73\<rparr>
   \<and> (\<exists>pn fg grid g'.
     update_live_price (History [100]) 0 ''WES Tail Hedge (KOQ)'' (\<lambda>k. 0) =
       ((pn, fg, Simulation (traces grid) 60 97.14), g')
     \<and> monte_carlo [100] 100 (\<lambda>k. 0) = (grid, g')
     \<and> length grid = 30
     \<and> (\<forall>row \<in> set grid. length row = 10)
     \<and> grid ! 0 = replicate 10 (Fin 100)
     \<and> length (traces grid) = 10
     \<and> (\<forall>tr \<in> set (traces grid). length tr = 30 \<and> tr ! 0 = Fin 100))"
  using simulation_grid_shape[of "[100]" "''WES Tail Hedge (KOQ)''"
      "\<lparr>long_ko = 60, short_ko = 97.14, gearing = 73\<rparr>" 0 "\<lambda>k. 0"]
  by (simp add: warrants_data_def)

subsection \<open>No data\<close>

text \<open>
  C6. When the feed returns an empty series the body raises nothing and the callback
  returns the no-data paragraph with two empty figures, whatever the label; the generator
  is left as it was.
\<close>

theorem no_data_output:
  "try_body (History []) label g = Inr ((P ''No data available...'', Figure, Figure), g)
   \<and> update_live_price (History []) n label g = ((P ''No data available...'', Figure, Figure), g)"
  by (simp add: update_live_price_def try_body_def)

subsection \<open>A series of one point\<close>

text \<open>
  C3, as the code has it. For a series of exactly one point the body raises nothing and
  no message is shown: the callback returns the summary, the gauges and the simulation
  chart. The sample of log-returns is empty, so drift and volatility are NaN; row 0 of the
  grid is the current price and every entry of rows 1 to 29 is NaN, so each trace is the
  current price followed by 29 NaN.
\<close>

theorem single_point_simulation:
  "try_body (History [p]) ''WES Tail Hedge (KOQ)'' g =
     Inr (update_live_price (History [p]) n ''WES Tail Hedge (KOQ)'' g)
   \<and> (\<exists>s i1 i2 g'.
        update_live_price (History [p]) n ''WES Tail Hedge (KOQ)'' g =
          ((Div s, Gauges i1 i2, Simulation (replicate 10 (Fin p # replicate 29 NaN)) 60 97.14), g'))
   \<and> fst (monte_carlo [p] p g) = replicate 10 (Fin p) # replicate 29 (replicate 10 NaN)
   \<and> traces (fst (monte_carlo [p] p g)) = replicate 10 (Fin p # replicate 29 NaN)"
proof -
  have nan: "mean (log_returns [p]) = NaN \<or> std (log_returns [p]) = NaN"
    by (simp add: log_returns_single mean_def)
  have "try_body (History [p]) ''WES Tail Hedge (KOQ)'' g =
     Inr (update_live_price (History [p]) n ''WES Tail Hedge (KOQ)'' g)"
    by (simp add: update_live_price_def try_body_def wes split: prod.splits)
  then show ?thesis
    by (simp add: single_point_output monte_carlo_grid_NaN[OF nan] traces_NaN)
qed

text \<open>
  The claim as the specification states it (an explicit insufficient-data signal, no NaN
  in the grid) fails on the one-point series 100: the callback answers with the summary
  block and a chart whose first trace has NaN at step 1.
\<close>

theorem single_point_counterexample:
  "length [100 :: real] < 2
   \<and> (\<exists>s i1 i2 tr g'.
        update_live_price (History [100]) 0 ''WES Tail Hedge (KOQ)'' (\<lambda>k. 0) =
          ((Div s, Gauges i1 i2, Simulation tr 60 97.14), g')
        \<and> tr ! 0 ! 1 = NaN)"
  by (simp add: single_point_output)

subsection \<open>Failures\<close>



subsection \<open>Geometric Brownian motion\<close>




subsection \<open>What the outputs depend on\<close>

text \<open>
  C8, as the code has it. The text panel and the gauges are functions of the fetched
  series and the configuration alone: they are the same whatever the tick count and the
  state of the random generator. The whole of the outputs, the simulation chart included,
  is the same for two ticks whose generators agree on the next 290 draws. The generator
  is the one state a tick hands to the next: a tick leaves it as it was (no simulation) or
  moved on by 290 draws.
\<close>

theorem derived_outputs:
  "fst (fst (update_live_price fd n1 label g1)) = fst (fst (update_live_price fd n2 label g2))
   \<and> fst (snd (fst (update_live_price fd n1 label g1))) =
       fst (snd (fst (update_live_price fd n2 label g2)))
   \<and> ((\<forall>k < 290. g1 k = g2 k) \<longrightarrow>
        fst (update_live_price fd n1 label g1) = fst (update_live_price fd n2 label g2))
   \<and> (snd (update_live_price fd n1 label g1) = g1
        \<or> snd (update_live_price fd n1 label g1) = (\<lambda>k. g1 (k + 290)))"
proof (cases fd)
  case (Raises m)
  then show ?thesis by (simp add: update_live_price_def try_body_def)
next
  case (History close)
  show ?thesis
  proof (cases "close = [] \<or> warrants_data label = None")
    case True
    then show ?thesis using History by (auto simp: update_live_price_def try_body_def)
  next
    case False
    then obtain w where ok: "close \<noteq> []" "warrants_data label = Some w" by auto
    have "(\<forall>k < 290. g1 k = g2 k) \<longrightarrow>
        fst (monte_carlo close (last close) g1) = fst (monte_carlo close (last close) g2)"
      using monte_carlo_draws[of g1 g2 close "last close"] by blast
    then show ?thesis
      unfolding History update_live_price_ok[OF ok]
      by (simp add: monte_carlo_rng)
  qed
qed

theorem derived_outputs_witness:
  "fst (update_live_price (History [1, 2, 2]) 0 ''WES Tail Hedge (KOQ)'' (\<lambda>k. if k < 290 then 0 else 1)) =
   fst (update_live_price (History [1, 2, 2]) 1 ''WES Tail Hedge (KOQ)'' (\<lambda>k. if k < 290 then 0 else 2))"
proof -
  have "\<forall>k < 290. (if k < 290 then 0 else 1) = (if k < 290 then 0 else (2 :: real))"
    by simp
  with derived_outputs[of "History [1, 2, 2]" 0 "''WES Tail Hedge (KOQ)''"
      "\<lambda>k. if k < 290 then 0 else 1" 1 "\<lambda>k. if k < 290 then 0 else 2"]
  show ?thesis by blast
qed

text \<open>
  The claim as the specification states it (the same series and configuration give the
  same outputs, no state is carried) fails on two ticks in a row over the series 1, 2, 2,
  when the generator delivers 290 times 0 and then 1: the simulation charts differ, and
  the generator the first tick leaves is not the one it found.
\<close>

theorem ticks_differ_counterexample:
  "fst (update_live_price (History [1, 2, 2]) 0 ''WES Tail Hedge (KOQ)''
          (\<lambda>k. if k < 290 then 0 else 1))
   \<noteq> fst (update_live_price (History [1, 2, 2]) 1 ''WES Tail Hedge (KOQ)''
          (snd (update_live_price (History [1, 2, 2]) 0 ''WES Tail Hedge (KOQ)''
             (\<lambda>k. if k < 290 then 0 else 1))))
   \<and> snd (update_live_price (History [1, 2, 2]) 0 ''WES Tail Hedge (KOQ)''
          (\<lambda>k. if k < 290 then 0 else 1)) \<noteq> (\<lambda>k. if k < 290 then 0 else 1)"
proof -
  let ?c = "[1, 2, 2 :: real]"
  let ?g = "\<lambda>k :: nat. if k < 290 then 0 else (1 :: real)"
  let ?h = "\<lambda>k :: nat. ?g (k + 290)"
  let ?G1 = "fst (monte_carlo ?c (last ?c) ?g)"
  let ?G2 = "fst (monte_carlo ?c (last ?c) ?h)"
  have ne: "?c \<noteq> []" by simp
  obtain m where m: "mean (log_returns ?c) = Fin m" using mean_122 by blast
  obtain s where s: "std (log_returns ?c) = Fin s" "s \<noteq> 0" using std_122 by blast
  have idx: "(1::nat) \<le> 1" "1 < steps" "0 < paths" by (simp_all add: steps_def paths_def)
  have r0: "?G1 ! 0 ! 0 = Fin 2" "?G2 ! 0 ! 0 = Fin 2"
    by (simp_all add: monte_carlo_row0 paths_def)
  from monte_carlo_gbm[OF m s(1) idx, of "last ?c" ?g] r0(1)
  have e1: "?G1 ! 1 ! 0 = Fin (2 * exp ((m - 0.5 * s ^ 2) * dt + s * sqrt dt * 0))"
    by simp
  from monte_carlo_gbm[OF m s(1) idx, of "last ?c" ?h] r0(2)
  have e2: "?G2 ! 1 ! 0 = Fin (2 * exp ((m - 0.5 * s ^ 2) * dt + s * sqrt dt * 1))"
    by simp
  have diff: "?G1 ! 1 ! 0 \<noteq> ?G2 ! 1 ! 0"
    unfolding e1 e2 using s(2) by (simp add: dt_def)
  have t1: "traces ?G1 ! 0 ! 1 = ?G1 ! 1 ! 0" and t2: "traces ?G2 ! 0 ! 1 = ?G2 ! 1 ! 0"
    by (simp_all add: traces_nth paths_def monte_carlo_length steps_def)
  have "traces ?G1 \<noteq> traces ?G2"
    using diff t1 t2 by metis
  then have first: "fst (update_live_price (History ?c) 0 ''WES Tail Hedge (KOQ)'' ?g)
      \<noteq> fst (update_live_price (History ?c) 1 ''WES Tail Hedge (KOQ)'' ?h)"
    unfolding update_live_price_ok[OF ne wes] by simp
  have st: "snd (update_live_price (History ?c) 0 ''WES Tail Hedge (KOQ)'' ?g) = ?h"
    unfolding update_live_price_ok[OF ne wes] by (simp add: monte_carlo_rng)
  have "?h 0 \<noteq> ?g 0" by simp
  then have "?h \<noteq> ?g" by metis
  with first st show ?thesis by simp
qed

end
